theory Spec2Isabelle
  imports Complex_Main "HOL-Library.Log_Nat"
begin

section \<open>Python values, exceptions and raw records\<close>

text \<open>
  The job in \<^verbatim>\<open>processor.py\<close> handles lists of flat JSON objects (the posts of the
  remote API, or the mock entries).  A field of such an object is modelled by \<open>pyval\<close>:
  Python's \<^verbatim>\<open>None\<close>, an \<^verbatim>\<open>int\<close>, a \<^verbatim>\<open>str\<close>, or the float \<^verbatim>\<open>nan\<close>, which is what
  pandas stores in a cell whose key is missing from the record.  A record is a
  \<^verbatim>\<open>dict\<close> with string keys in insertion order, hence an association list.
  A \<^verbatim>\<open>str\<close> is a list of characters; one HOL character stands for one code point.
\<close>

datatype pyval = PNone | PNaN | PInt int | PStr string

type_synonym raw_record = "(string \<times> pyval) list"

text \<open>The exceptions that the job can raise.  The first group is the class hierarchy
  below \<^verbatim>\<open>requests.RequestException\<close>.\<close>

datatype request_failure = Timeout | ConnectionError | HTTPError nat | JSONDecodeError

datatype py_exc =
    RequestException request_failure
  | TypeError
  | KeyError string
  | AttributeError
  | ValueError

text \<open>Statements in sequence: an exception of the first ends the sequence.\<close>

fun and_then :: "'e + 'a \<Rightarrow> ('a \<Rightarrow> 'e + 'b) \<Rightarrow> 'e + 'b" where
  "and_then (Inl e) f = Inl e"
| "and_then (Inr x) f = f x"

subsection \<open>Decimal text of an integer: \<^verbatim>\<open>str(n)\<close> and \<^verbatim>\<open>f'{n}'\<close>\<close>

definition digit_char :: "nat \<Rightarrow> char" where
  "digit_char d = ''0123456789'' ! d"

function show_nat :: "nat \<Rightarrow> string" where
  "show_nat n = (if n < 10 then [digit_char n] else show_nat (n div 10) @ [digit_char (n mod 10)])"
  by pat_completeness auto
termination
  by (relation "measure id") auto

declare show_nat.simps [simp del]

definition show_int :: "int \<Rightarrow> string" where
  "show_int i = (if i < 0 then CHR ''-'' # show_nat (nat (- i)) else show_nat (nat i))"

section \<open>The data source: \<^verbatim>\<open>fetch_sample_data\<close> and \<^verbatim>\<open>_generate_mock_data\<close>\<close>

text \<open>
  \<^verbatim>\<open>_generate_mock_data\<close>: the loop \<^verbatim>\<open>for i in range(10): mock_data.append({...})\<close>.
\<close>

definition mock_entry :: "int \<Rightarrow> raw_record" where
  "mock_entry i =
     [(''id'', PInt (i + 1)),
      (''title'', PStr (''Sample Data Entry '' @ show_int (i + 1))),
      (''body'', PStr (''This is mock data entry number '' @ show_int (i + 1))),
      (''userId'', PInt ((i mod 3) + 1))]"

fun mock_loop :: "int list \<Rightarrow> raw_record list \<Rightarrow> raw_record list" where
  "mock_loop [] mock_data = mock_data"
| "mock_loop (i # rest) mock_data = mock_loop rest (mock_data @ [mock_entry i])"

definition generate_mock_data :: "raw_record list" where
  "generate_mock_data = mock_loop [0, 1, 2, 3, 4, 5, 6, 7, 8, 9] []"

text \<open>
  The remote call.  \<^verbatim>\<open>requests.get(url, timeout=30)\<close> either raises (timeout, transport
  error) or returns a response, of which the job uses the status code and the body.
  The body is modelled by what \<^verbatim>\<open>response.json()\<close> makes of it: text that is not JSON,
  or a decoded document.  The elements of a JSON array are flat objects.
\<close>

datatype payload =
    NotJson
  | JsonScalar
  | JsonObject
  | JsonString string
  | JsonArray "raw_record list"

record response =
  status_code :: nat
  content :: payload

type_synonym remote = "request_failure + response"

text \<open>What \<^verbatim>\<open>fetch_sample_data\<close> can hand to its caller: a list of records, or the string
  that slicing a JSON string leaves.\<close>

datatype fetched = Records "raw_record list" | Text string

definition raise_for_status :: "response \<Rightarrow> py_exc + unit" where
  "raise_for_status r =
     (if 400 \<le> status_code r \<and> status_code r < 600
      then Inl (RequestException (HTTPError (status_code r))) else Inr ())"

text \<open>\<^verbatim>\<open>response.json()\<close>: since requests 2.27 the decoding error is
  \<^verbatim>\<open>requests.exceptions.JSONDecodeError\<close>, a \<^verbatim>\<open>RequestException\<close>.\<close>

definition response_json :: "response \<Rightarrow> py_exc + payload" where
  "response_json r =
     (case content r of NotJson \<Rightarrow> Inl (RequestException JSONDecodeError) | p \<Rightarrow> Inr p)"

text \<open>\<^verbatim>\<open>...[:10]\<close> on the decoded document.  A list or a string is sliced; \<^verbatim>\<open>None\<close>, a
  number and a boolean are not subscriptable; a \<^verbatim>\<open>dict\<close> rejects the slice as a key
  (\<^verbatim>\<open>TypeError: unhashable type\<close> up to CPython 3.11, a \<^verbatim>\<open>KeyError\<close> from 3.12 on:
  in both cases not a \<^verbatim>\<open>RequestException\<close>).\<close>

fun first_ten :: "payload \<Rightarrow> py_exc + fetched" where
  "first_ten (JsonArray posts) = Inr (Records (take 10 posts))"
| "first_ten (JsonString s) = Inr (Text (take 10 s))"
| "first_ten JsonScalar = Inl TypeError"
| "first_ten JsonObject = Inl TypeError"
| "first_ten NotJson = Inl TypeError"

text \<open>The body of the \<^verbatim>\<open>try\<close> block, lines 46 to 54.\<close>

definition fetch_try :: "remote \<Rightarrow> py_exc + fetched" where
  "fetch_try got =
     (case got of
        Inl failure \<Rightarrow> Inl (RequestException failure)
      | Inr r \<Rightarrow>
          (case raise_for_status r of
             Inl e \<Rightarrow> Inl e
           | Inr _ \<Rightarrow>
               (case response_json r of
                  Inl e \<Rightarrow> Inl e
                | Inr doc \<Rightarrow> first_ten doc)))"

text \<open>\<^verbatim>\<open>except requests.RequestException\<close>: only that class is caught.\<close>

definition fetch_sample_data :: "remote \<Rightarrow> py_exc + fetched" where
  "fetch_sample_data got =
     (case fetch_try got of
        Inl (RequestException e) \<Rightarrow> Inr (Records generate_mock_data)
      | Inl other \<Rightarrow> Inl other
      | Inr data \<Rightarrow> Inr data)"

section \<open>Floating point: \<^verbatim>\<open>float64\<close>\<close>

text \<open>
  A \<^verbatim>\<open>float64\<close> is \<^verbatim>\<open>nan\<close> or a finite value, given by the rational number it denotes.
  Every arithmetic operation rounds its exact result to the nearest number with a
  53 bit significand, ties to even (\<open>fl\<close>).  The exponent range is not bounded: the
  values of the job are counts, lengths and their means, far from overflow and underflow.
\<close>

datatype float64 = FNaN | F rat

definition rne :: "rat \<Rightarrow> int" where
  "rne x = (let f = \<lfloor>x\<rfloor>; d = x - of_int f in
            if d < 1 / 2 then f else if 1 / 2 < d then f + 1 else if even f then f else f + 1)"

definition pow2 :: "int \<Rightarrow> rat" where
  "pow2 e = (if 0 \<le> e then 2 ^ nat e else 1 / 2 ^ nat (- e))"

definition binade :: "rat \<Rightarrow> int" where
  "binade x = (let (p, q) = quotient_of \<bar>x\<bar>; d = bitlen p - bitlen q
               in if pow2 d \<le> \<bar>x\<bar> then d else d - 1)"

definition fl :: "rat \<Rightarrow> rat" where
  "fl x = (if x = 0 then 0
           else let u = pow2 (binade x - 52) in of_int (rne (x / u)) * u)"

definition to_float :: "int \<Rightarrow> rat" where
  "to_float i = fl (of_int i)"

text \<open>\<^verbatim>\<open>.round(2)\<close> on a float column is numpy's \<^verbatim>\<open>rint(x * 100) / 100\<close>, each step in
  \<^verbatim>\<open>float64\<close>; \<^verbatim>\<open>rint\<close> rounds half to even.\<close>

fun np_round2 :: "float64 \<Rightarrow> float64" where
  "np_round2 FNaN = FNaN"
| "np_round2 (F x) = F (fl (of_int (rne (fl (x * 100))) / 100))"

text \<open>The mean of the values that are present (\<^verbatim>\<open>skipna\<close>): their sum as a float,
  divided by their number; \<^verbatim>\<open>nan\<close> when there is none.\<close>

definition present :: "int option list \<Rightarrow> int list" where
  "present xs = List.map_filter (\<lambda>x. x) xs"

definition fmean :: "int option list \<Rightarrow> float64" where
  "fmean xs =
     (if present xs = [] then FNaN
      else F (fl (to_float (sum_list (present xs)) / of_nat (length (present xs)))))"

section \<open>The pandas \<^verbatim>\<open>DataFrame\<close>\<close>

text \<open>
  A frame is its number of rows and its columns in order, each column a list of cells.
  The \<^verbatim>\<open>dtype\<close> that pandas infers for a column is a function of its cells: strings
  make it \<^verbatim>\<open>object\<close>; integers make it \<^verbatim>\<open>int64\<close>, or \<^verbatim>\<open>float64\<close> when a value is missing;
  a column of \<^verbatim>\<open>None\<close> only is \<^verbatim>\<open>object\<close>.
\<close>

record dataframe =
  nrows :: nat
  columns :: "(string \<times> pyval list) list"

datatype dtype = Int64 | Float64 | Object

fun isna :: "pyval \<Rightarrow> bool" where
  "isna PNone = True"
| "isna PNaN = True"
| "isna _ = False"

fun is_str :: "pyval \<Rightarrow> bool" where
  "is_str (PStr _) = True"
| "is_str _ = False"

fun is_int :: "pyval \<Rightarrow> bool" where
  "is_int (PInt _) = True"
| "is_int _ = False"

definition dtype_of :: "pyval list \<Rightarrow> dtype" where
  "dtype_of cells =
     (if list_ex is_str cells then Object
      else if list_ex is_int cells then (if list_all is_int cells then Int64 else Float64)
      else if list_all (\<lambda>c. c = PNone) cells then Object
      else Float64)"

text \<open>\<^verbatim>\<open>pd.DataFrame(raw_data)\<close> for a list of dicts: the columns are the keys in the
  order of their first appearance, a cell is the record's value or \<^verbatim>\<open>nan\<close>.\<close>

fun fast_unique :: "'a list \<Rightarrow> 'a list \<Rightarrow> 'a list" where
  "fast_unique seen [] = seen"
| "fast_unique seen (k # ks) = fast_unique (if k \<in> set seen then seen else seen @ [k]) ks"

definition cell :: "raw_record \<Rightarrow> string \<Rightarrow> pyval" where
  "cell r k = (case map_of r k of None \<Rightarrow> PNaN | Some v \<Rightarrow> v)"

definition DataFrame :: "raw_record list \<Rightarrow> dataframe" where
  "DataFrame raw_data =
     \<lparr>nrows = length raw_data,
      columns = map (\<lambda>k. (k, map (\<lambda>r. cell r k) raw_data))
                    (fast_unique [] (concat (map (map fst) raw_data)))\<rparr>"

text \<open>\<^verbatim>\<open>df[k]\<close> and \<^verbatim>\<open>df[k] = series\<close>: an existing column is replaced where it stands,
  a new one is appended.\<close>

definition getitem :: "dataframe \<Rightarrow> string \<Rightarrow> py_exc + pyval list" where
  "getitem df k = (case map_of (columns df) k of None \<Rightarrow> Inl (KeyError k) | Some c \<Rightarrow> Inr c)"

fun put_column :: "string \<Rightarrow> pyval list \<Rightarrow> (string \<times> pyval list) list \<Rightarrow> (string \<times> pyval list) list" where
  "put_column k v [] = [(k, v)]"
| "put_column k v (p # ps) = (if fst p = k then (k, v) # ps else p # put_column k v ps)"

definition setitem :: "dataframe \<Rightarrow> string \<Rightarrow> pyval list \<Rightarrow> dataframe" where
  "setitem df k series = df\<lparr>columns := put_column k series (columns df)\<rparr>"

subsection \<open>The \<^verbatim>\<open>.str\<close> accessor\<close>

text \<open>\<^verbatim>\<open>.str\<close> is refused on a column that is not of \<^verbatim>\<open>object\<close> dtype.  Its methods map
  a cell that is not a string to \<^verbatim>\<open>nan\<close>.\<close>

definition str_accessor :: "pyval list \<Rightarrow> py_exc + pyval list" where
  "str_accessor series = (if dtype_of series = Object then Inr series else Inl AttributeError)"

fun str_len1 :: "pyval \<Rightarrow> pyval" where
  "str_len1 (PStr s) = PInt (int (length s))"
| "str_len1 _ = PNaN"

definition str_len :: "pyval list \<Rightarrow> pyval list" where
  "str_len series = map str_len1 series"

text \<open>\<^verbatim>\<open>str.split()\<close> without separator: runs of whitespace separate the tokens, leading
  and trailing whitespace yields no token.  Whitespace is what \<^verbatim>\<open>str.isspace\<close> accepts.\<close>

definition is_space :: "char \<Rightarrow> bool" where
  "is_space c = ((of_char c :: nat) \<in> set [9, 10, 11, 12, 13, 28, 29, 30, 31, 32, 133, 160])"

fun split_ws :: "string \<Rightarrow> string \<Rightarrow> string list" where
  "split_ws [] cur = (if cur = [] then [] else [cur])"
| "split_ws (c # cs) cur =
     (if is_space c then (if cur = [] then split_ws cs [] else cur # split_ws cs [])
      else split_ws cs (cur @ [c]))"

definition py_split :: "string \<Rightarrow> string list" where
  "py_split s = split_ws s []"

fun str_split1 :: "pyval \<Rightarrow> string list option" where
  "str_split1 (PStr s) = Some (py_split s)"
| "str_split1 _ = None"

fun list_len1 :: "string list option \<Rightarrow> pyval" where
  "list_len1 (Some ws) = PInt (int (length ws))"
| "list_len1 None = PNaN"

text \<open>\<^verbatim>\<open>series.str.split().str.len()\<close>; the second \<^verbatim>\<open>.str\<close> is on an \<^verbatim>\<open>object\<close> column
  of lists and never refused.\<close>

definition str_split_len :: "pyval list \<Rightarrow> pyval list" where
  "str_split_len series = map (\<lambda>c. list_len1 (str_split1 c)) series"

subsection \<open>Python objects of the report\<close>

datatype pykey = KInt int | KFloat rat | KStr string

datatype pyobj =
    OBool bool
  | OInt int
  | OFloat float64
  | OStr string
  | ODict "(pykey \<times> pyobj) list"

fun dict_get :: "pyobj \<Rightarrow> pykey \<Rightarrow> pyobj option" where
  "dict_get (ODict kvs) k = map_of kvs k"
| "dict_get _ k = None"

subsection \<open>\<^verbatim>\<open>groupby('userId').agg({...}).round(2)\<close>\<close>

text \<open>
  The group keys are the values of the column that are not missing (\<^verbatim>\<open>dropna\<close>), each
  once, sorted: numbers in ascending order before strings in lexicographic order.
  In a \<^verbatim>\<open>float64\<close> column the key of an integer is its float.
\<close>

fun key_of :: "dtype \<Rightarrow> pyval \<Rightarrow> pykey option" where
  "key_of dt (PInt i) = Some (if dt = Float64 then KFloat (to_float i) else KInt i)"
| "key_of dt (PStr s) = Some (KStr s)"
| "key_of dt PNone = None"
| "key_of dt PNaN = None"

fun str_le :: "string \<Rightarrow> string \<Rightarrow> bool" where
  "str_le [] t = True"
| "str_le (c # cs) [] = False"
| "str_le (c # cs) (d # ds) = ((of_char c :: nat) < of_char d \<or> (c = d \<and> str_le cs ds))"

fun key_le :: "pykey \<Rightarrow> pykey \<Rightarrow> bool" where
  "key_le (KInt a) (KInt b) = (a \<le> b)"
| "key_le (KFloat a) (KFloat b) = (a \<le> b)"
| "key_le (KInt a) (KFloat b) = (of_int a \<le> b)"
| "key_le (KFloat a) (KInt b) = (a \<le> of_int b)"
| "key_le (KStr a) (KStr b) = str_le a b"
| "key_le (KStr a) _ = False"
| "key_le _ (KStr b) = True"

fun key_insort :: "pykey \<Rightarrow> pykey list \<Rightarrow> pykey list" where
  "key_insort k [] = [k]"
| "key_insort k (x # xs) = (if key_le k x then k # x # xs else x # key_insort k xs)"

definition key_sort :: "pykey list \<Rightarrow> pykey list" where
  "key_sort ks = foldr key_insort ks []"

definition uniques :: "pyval list \<Rightarrow> pykey list" where
  "uniques keycol = fast_unique [] (List.map_filter (key_of (dtype_of keycol)) keycol)"

definition group_keys :: "pyval list \<Rightarrow> pykey list" where
  "group_keys keycol = key_sort (uniques keycol)"

text \<open>The cells of a column in the rows of group \<open>g\<close>.\<close>

definition group_of :: "pyval list \<Rightarrow> pykey \<Rightarrow> 'a list \<Rightarrow> 'a list" where
  "group_of keycol g col = map snd (filter (\<lambda>(u, c). key_of (dtype_of keycol) u = Some g) (zip keycol col))"

text \<open>\<^verbatim>\<open>mean\<close>, \<^verbatim>\<open>sum\<close>, \<^verbatim>\<open>min\<close> and \<^verbatim>\<open>max\<close> are taken of numeric columns: the two
  computed columns of a frame of the job are \<^verbatim>\<open>int64\<close> or \<^verbatim>\<open>float64\<close>.  The integers
  of a \<^verbatim>\<open>float64\<close> column are floats; their sums stay far below \<open>2^53\<close>, where float
  addition is exact.\<close>

fun int_of :: "pyval \<Rightarrow> int option" where
  "int_of (PInt i) = Some i"
| "int_of _ = None"

definition numeric :: "pyval list \<Rightarrow> py_exc + int option list" where
  "numeric series = (if dtype_of series = Object then Inl TypeError else Inr (map int_of series))"

text \<open>\<^verbatim>\<open>'id': 'count'\<close> counts the cells of the group that are not missing;
  \<^verbatim>\<open>'title_length': 'mean'\<close> and \<^verbatim>\<open>'body_word_count': 'sum'\<close> skip missing cells.  The
  sum of an \<^verbatim>\<open>int64\<close> column is an integer, of a \<^verbatim>\<open>float64\<close> column a float, which
  \<^verbatim>\<open>round(2)\<close> then rounds as it does the mean.\<close>

definition agg_count :: "pyval list \<Rightarrow> int" where
  "agg_count cells = int (length (filter (\<lambda>c. \<not> isna c) cells))"

definition agg_sum :: "dtype \<Rightarrow> int option list \<Rightarrow> pyobj" where
  "agg_sum dt xs =
     (if dt = Int64 then OInt (sum_list (present xs))
      else OFloat (np_round2 (F (to_float (sum_list (present xs))))))"

definition agg_row :: "pyval list \<Rightarrow> pyval list \<Rightarrow> int option list \<Rightarrow> dtype \<Rightarrow> int option list
    \<Rightarrow> pykey \<Rightarrow> pyobj" where
  "agg_row keycol ids lens dt words g =
     ODict [(KStr ''id'', OInt (agg_count (group_of keycol g ids))),
            (KStr ''title_length'', OFloat (np_round2 (fmean (group_of keycol g lens)))),
            (KStr ''body_word_count'', agg_sum dt (group_of keycol g words))]"

text \<open>The whole expression of lines 91 to 95 and 131 to 135; its value is the frame of
  statistics as the dictionary that \<^verbatim>\<open>to_dict('index')\<close> makes of it.\<close>

definition groupby_agg :: "dataframe \<Rightarrow> py_exc + (pykey \<times> pyobj) list" where
  "groupby_agg df =
     and_then (getitem df ''userId'') (\<lambda>keycol.
     and_then (getitem df ''id'') (\<lambda>ids.
     and_then (getitem df ''title_length'') (\<lambda>title_length.
     and_then (getitem df ''body_word_count'') (\<lambda>body_word_count.
     and_then (numeric title_length) (\<lambda>lens.
     and_then (numeric body_word_count) (\<lambda>words.
       Inr (map (\<lambda>g. (g, agg_row keycol ids lens (dtype_of body_word_count) words g))
                (group_keys keycol))))))))"

section \<open>The transformer: \<^verbatim>\<open>process_data\<close>\<close>

text \<open>The timestamp of line 84 is the argument \<open>now\<close>.  The statistics of lines 91 to 108
  are only logged, but computing them can raise.\<close>

definition process_data :: "string \<Rightarrow> raw_record list \<Rightarrow> py_exc + dataframe" where
  "process_data now raw_data =
     (let df0 = DataFrame raw_data;
          df1 = setitem df0 ''processed_at'' (replicate (nrows df0) (PStr now))
      in and_then (getitem df1 ''title'') (\<lambda>title.
         and_then (str_accessor title) (\<lambda>title_str.
         let df2 = setitem df1 ''title_length'' (str_len title_str)
         in and_then (getitem df2 ''body'') (\<lambda>body.
            and_then (str_accessor body) (\<lambda>body_str.
            let df3 = setitem df2 ''body_word_count'' (str_split_len body_str)
            in and_then (groupby_agg df3) (\<lambda>user_stats. Inr df3))))))"

section \<open>The reporter: \<^verbatim>\<open>perform_analysis\<close>\<close>

record env =
  cronjob_name :: string
  execution_uuid :: string
  manual_trigger :: bool

text \<open>A reduction of a column yields a numpy scalar: an integer for an \<^verbatim>\<open>int64\<close> column,
  a float for a \<^verbatim>\<open>float64\<close> column.  \<^verbatim>\<open>int(...)\<close> of a float truncates and refuses
  \<^verbatim>\<open>nan\<close>; \<^verbatim>\<open>float(...)\<close> of the mean keeps it.\<close>

datatype npnum = NpInt int | NpFloat float64

fun py_int :: "npnum \<Rightarrow> py_exc + int" where
  "py_int (NpInt i) = Inr i"
| "py_int (NpFloat FNaN) = Inl ValueError"
| "py_int (NpFloat (F x)) = Inr (if 0 \<le> x then \<lfloor>x\<rfloor> else \<lceil>x\<rceil>)"

fun list_min :: "int list \<Rightarrow> int" where
  "list_min [] = 0"
| "list_min (x # xs) = fold min xs x"

fun list_max :: "int list \<Rightarrow> int" where
  "list_max [] = 0"
| "list_max (x # xs) = fold max xs x"

definition extremum :: "(int list \<Rightarrow> int) \<Rightarrow> dtype \<Rightarrow> int option list \<Rightarrow> npnum" where
  "extremum pick dt xs =
     (if dt = Int64 then NpInt (pick (present xs))
      else if present xs = [] then NpFloat FNaN
      else NpFloat (F (to_float (pick (present xs)))))"

definition series_mean :: "pyval list \<Rightarrow> py_exc + float64" where
  "series_mean series = (case numeric series of Inl e \<Rightarrow> Inl e | Inr xs \<Rightarrow> Inr (fmean xs))"

definition series_sum :: "pyval list \<Rightarrow> py_exc + npnum" where
  "series_sum series =
     (case numeric series of Inl e \<Rightarrow> Inl e
      | Inr xs \<Rightarrow> Inr (if dtype_of series = Int64 then NpInt (sum_list (present xs))
                       else NpFloat (F (to_float (sum_list (present xs))))))"

definition series_min :: "pyval list \<Rightarrow> py_exc + npnum" where
  "series_min series =
     (case numeric series of Inl e \<Rightarrow> Inl e
      | Inr xs \<Rightarrow> Inr (extremum list_min (dtype_of series) xs))"

definition series_max :: "pyval list \<Rightarrow> py_exc + npnum" where
  "series_max series =
     (case numeric series of Inl e \<Rightarrow> Inl e
      | Inr xs \<Rightarrow> Inr (extremum list_max (dtype_of series) xs))"

definition nunique :: "pyval list \<Rightarrow> int" where
  "nunique series = int (length (uniques series))"

text \<open>The dictionary of lines 116 to 136; its entries are evaluated in the order written.
  The timestamp of line 121 is the argument \<open>now\<close>.\<close>

definition perform_analysis :: "env \<Rightarrow> string \<Rightarrow> dataframe \<Rightarrow> py_exc + pyobj" where
  "perform_analysis self now df =
     and_then (getitem df ''userId'') (\<lambda>user_id.
     and_then (getitem df ''title_length'') (\<lambda>title_length.
     and_then (series_mean title_length) (\<lambda>avg.
     and_then (getitem df ''body_word_count'') (\<lambda>body_word_count.
     and_then (series_sum body_word_count) (\<lambda>total.
     and_then (py_int total) (\<lambda>total_words.
     and_then (series_min title_length) (\<lambda>lo.
     and_then (py_int lo) (\<lambda>min_title_length.
     and_then (series_max title_length) (\<lambda>hi.
     and_then (py_int hi) (\<lambda>max_title_length.
     and_then (groupby_agg df) (\<lambda>user_breakdown.
       Inr (ODict
         [(KStr ''execution_info'', ODict
             [(KStr ''cronjob_name'', OStr (cronjob_name self)),
              (KStr ''execution_uuid'', OStr (execution_uuid self)),
              (KStr ''manual_trigger'', OBool (manual_trigger self)),
              (KStr ''processed_at'', OStr now)]),
          (KStr ''data_summary'', ODict
             [(KStr ''total_records'', OInt (int (nrows df))),
              (KStr ''unique_users'', OInt (nunique user_id)),
              (KStr ''avg_title_length'', OFloat avg),
              (KStr ''total_words'', OInt total_words),
              (KStr ''min_title_length'', OInt min_title_length),
              (KStr ''max_title_length'', OInt max_title_length)]),
          (KStr ''user_breakdown'', ODict user_breakdown)]))))))))))))"

section \<open>The persister: \<^verbatim>\<open>save_results\<close>\<close>

subsection \<open>\<^verbatim>\<open>df.to_csv(path, index=False)\<close>\<close>

text \<open>
  pandas turns every cell into text and hands the header and the rows to Python's
  \<^verbatim>\<open>csv.writer\<close> with its default dialect: delimiter comma, quote character \<^verbatim>\<open>"\<close>,
  minimal quoting, doubled quotes, and the line feed as line terminator.  A missing cell
  is the empty text.  How a float is printed is left to the parameter \<open>float_repr\<close>.
\<close>

definition fmt_cell :: "(rat \<Rightarrow> string) \<Rightarrow> dtype \<Rightarrow> pyval \<Rightarrow> string" where
  "fmt_cell float_repr dt c =
     (case c of
        PStr s \<Rightarrow> s
      | PInt i \<Rightarrow> (if dt = Float64 then float_repr (to_float i) else show_int i)
      | PNone \<Rightarrow> []
      | PNaN \<Rightarrow> [])"

definition special :: "char \<Rightarrow> bool" where
  "special c = (c = CHR '','' \<or> c = CHR 0x22 \<or> c = CHR 0x0A \<or> c = CHR 0x0D)"

fun escape_quotes :: "string \<Rightarrow> string" where
  "escape_quotes [] = []"
| "escape_quotes (c # cs) = (if c = CHR 0x22 then CHR 0x22 # CHR 0x22 # escape_quotes cs
                             else c # escape_quotes cs)"

definition csv_field :: "string \<Rightarrow> string" where
  "csv_field s = (if list_ex special s then CHR 0x22 # escape_quotes s @ [CHR 0x22] else s)"

fun join_fields :: "string list \<Rightarrow> string" where
  "join_fields [] = []"
| "join_fields [f] = f"
| "join_fields (f # g # fs) = f @ CHR '','' # join_fields (g # fs)"

text \<open>A row of one empty field is written as a pair of quotes.\<close>

definition csv_row :: "string list \<Rightarrow> string" where
  "csv_row row =
     (if row = [[]] then [CHR 0x22, CHR 0x22] else join_fields (map csv_field row))
     @ [CHR 0x0A]"

definition frame_row :: "(rat \<Rightarrow> string) \<Rightarrow> dataframe \<Rightarrow> nat \<Rightarrow> string list" where
  "frame_row float_repr df i =
     map (\<lambda>(k, col). fmt_cell float_repr (dtype_of col) (col ! i)) (columns df)"

definition csv_table :: "(rat \<Rightarrow> string) \<Rightarrow> dataframe \<Rightarrow> string list list" where
  "csv_table float_repr df =
     map fst (columns df) # map (frame_row float_repr df) [0 ..< nrows df]"

definition to_csv :: "(rat \<Rightarrow> string) \<Rightarrow> dataframe \<Rightarrow> string" where
  "to_csv float_repr df = concat (map csv_row (csv_table float_repr df))"

subsection \<open>\<^verbatim>\<open>json.dump(analysis, f, indent=2)\<close> and reading the document back\<close>

text \<open>
  The written document is modelled by its syntax tree.  A JSON object has strings as
  member names, so \<^verbatim>\<open>json.dump\<close> writes a key that is a number as its text.
  \<^verbatim>\<open>json.load\<close> builds a \<^verbatim>\<open>dict\<close> from the members in order; a member name that
  occurs again replaces the value of the earlier one.
\<close>

datatype json =
    JBool bool
  | JInt int
  | JFloat float64
  | JString string
  | JObject "(string \<times> json) list"

fun key_text :: "(rat \<Rightarrow> string) \<Rightarrow> pykey \<Rightarrow> string" where
  "key_text float_repr (KStr s) = s"
| "key_text float_repr (KInt i) = show_int i"
| "key_text float_repr (KFloat x) = float_repr x"

fun json_dump :: "(rat \<Rightarrow> string) \<Rightarrow> pyobj \<Rightarrow> json" where
  "json_dump float_repr (OBool b) = JBool b"
| "json_dump float_repr (OInt i) = JInt i"
| "json_dump float_repr (OFloat x) = JFloat x"
| "json_dump float_repr (OStr s) = JString s"
| "json_dump float_repr (ODict kvs) =
     JObject (map (\<lambda>kv. (key_text float_repr (fst kv), json_dump float_repr (snd kv))) kvs)"

fun dict_put :: "pykey \<Rightarrow> pyobj \<Rightarrow> (pykey \<times> pyobj) list \<Rightarrow> (pykey \<times> pyobj) list" where
  "dict_put k v [] = [(k, v)]"
| "dict_put k v (p # ps) = (if fst p = k then (k, v) # ps else p # dict_put k v ps)"

fun json_load :: "json \<Rightarrow> pyobj" where
  "json_load (JBool b) = OBool b"
| "json_load (JInt i) = OInt i"
| "json_load (JFloat x) = OFloat x"
| "json_load (JString s) = OStr s"
| "json_load (JObject members) =
     ODict (fold (\<lambda>m d. dict_put (KStr (fst m)) (json_load (snd m)) d) members [])"

subsection \<open>The two files\<close>

datatype written = CsvFile string | JsonFile json

type_synonym filesystem = "string \<rightharpoonup> written"

definition csv_path :: "env \<Rightarrow> string" where
  "csv_path self = ''/tmp/cronjob_output'' @ ''/processed_data_'' @ execution_uuid self @ ''.csv''"

definition json_path :: "env \<Rightarrow> string" where
  "json_path self = ''/tmp/cronjob_output'' @ ''/analysis_'' @ execution_uuid self @ ''.json''"

definition save_results :: "(rat \<Rightarrow> string) \<Rightarrow> env \<Rightarrow> dataframe \<Rightarrow> pyobj \<Rightarrow> filesystem \<Rightarrow> filesystem" where
  "save_results float_repr self df analysis fs =
     (let fs = fs(csv_path self \<mapsto> CsvFile (to_csv float_repr df))
      in fs(json_path self \<mapsto> JsonFile (json_dump float_repr analysis)))"

section \<open>The pipeline: \<^verbatim>\<open>run\<close>\<close>

text \<open>
  \<^verbatim>\<open>run\<close> returns the exit code; the model returns it with the file system it leaves.
  The reply of the remote service and the two clock readings are arguments.  A fetched
  value that is a string makes the \<^verbatim>\<open>DataFrame\<close> constructor raise a \<^verbatim>\<open>ValueError\<close>.
  \<^verbatim>\<open>simulate_work\<close> computes nothing that is kept.  Every exception ends in the handler
  of line 211.
\<close>

definition run :: "(rat \<Rightarrow> string) \<Rightarrow> env \<Rightarrow> remote \<Rightarrow> string \<Rightarrow> string \<Rightarrow> filesystem
    \<Rightarrow> int \<times> filesystem" where
  "run float_repr self got t_process t_analysis fs =
     (case and_then (fetch_sample_data got) (\<lambda>raw_data.
           and_then (case raw_data of Records posts \<Rightarrow> process_data t_process posts
                                    | Text s \<Rightarrow> Inl ValueError) (\<lambda>processed_df.
           and_then (perform_analysis self t_analysis processed_df) (\<lambda>analysis.
             Inr (save_results float_repr self processed_df analysis fs))))
      of Inr fs' \<Rightarrow> (0, fs')
       | Inl e \<Rightarrow> (1, fs))"

section \<open>The data model of the specification\<close>

text \<open>
  The definitions of this section follow the words of the specification, to state
  its claims: the shape of a raw record, the count of whitespace-delimited tokens, the
  derived record with the transform that the specification describes, the relation
  between a frame and the derived records it holds, the row of a group, and the example
  scenario.
\<close>

text \<open>A raw record of the data model: integer \<^verbatim>\<open>id\<close> and group, string title and body.\<close>

definition raw_record_ok :: "raw_record \<Rightarrow> bool" where
  "raw_record_ok r =
     (is_int (cell r ''id'') \<and> is_str (cell r ''title'') \<and> is_str (cell r ''body'')
      \<and> is_int (cell r ''userId''))"

text \<open>The number of whitespace-delimited tokens of a text: the positions at which a
  character that is not whitespace starts the text or follows whitespace.\<close>

definition whitespace_token_count :: "string \<Rightarrow> nat" where
  "whitespace_token_count s =
     length (filter (\<lambda>i. \<not> is_space (s ! i) \<and> (i = 0 \<or> is_space (s ! (i - 1))))
                    [0 ..< length s])"

text \<open>A derived record of the data model, with the fields that the aggregation and the
  report use, and the transform of a raw record as the specification words it.\<close>

record derived =
  d_id :: int
  d_group :: int
  d_title_length :: int
  d_word_count :: int

fun int_val :: "pyval \<Rightarrow> int" where
  "int_val (PInt i) = i"
| "int_val _ = 0"

fun str_val :: "pyval \<Rightarrow> string" where
  "str_val (PStr s) = s"
| "str_val _ = []"

definition derive :: "raw_record \<Rightarrow> derived" where
  "derive r =
     \<lparr>d_id = int_val (cell r ''id''),
      d_group = int_val (cell r ''userId''),
      d_title_length = int (length (str_val (cell r ''title''))),
      d_word_count = int (whitespace_token_count (str_val (cell r ''body'')))\<rparr>"

text \<open>A frame holds a list of derived records when it has one row per record, in order,
  with the record's fields in the four columns.\<close>

definition holds_records :: "dataframe \<Rightarrow> derived list \<Rightarrow> bool" where
  "holds_records df recs =
     (nrows df = length recs
      \<and> getitem df ''id'' = Inr (map (\<lambda>r. PInt (d_id r)) recs)
      \<and> getitem df ''userId'' = Inr (map (\<lambda>r. PInt (d_group r)) recs)
      \<and> getitem df ''title_length'' = Inr (map (\<lambda>r. PInt (d_title_length r)) recs)
      \<and> getitem df ''body_word_count'' = Inr (map (\<lambda>r. PInt (d_word_count r)) recs))"

text \<open>The count of a row of the aggregate, \<^verbatim>\<open>row['id']\<close>.\<close>

definition count_field :: "pyobj \<Rightarrow> int" where
  "count_field row = (case dict_get row (KStr ''id'') of Some (OInt c) \<Rightarrow> c | _ \<Rightarrow> 0)"

text \<open>The row of group \<open>g\<close> as the specification words it: the number of records of the
  group, the rounded mean of their title lengths, the sum of their word counts.\<close>

definition row_of :: "derived list \<Rightarrow> int \<Rightarrow> pyobj" where
  "row_of recs g =
     ODict [(KStr ''id'', OInt (int (length (filter (\<lambda>r. d_group r = g) recs)))),
            (KStr ''title_length'',
               OFloat (np_round2 (fmean (map (\<lambda>r. Some (d_title_length r))
                                            (filter (\<lambda>r. d_group r = g) recs))))),
            (KStr ''body_word_count'',
               OInt (\<Sum>r\<leftarrow>filter (\<lambda>r. d_group r = g) recs. d_word_count r))]"

text \<open>The example scenario: its three records, their derived records, the frame of the
  transform at the timestamp \<^verbatim>\<open>T\<close>; and two records of which one has a \<^verbatim>\<open>null\<close> title
  and the other no body.\<close>

definition example_records :: "raw_record list" where
  "example_records =
     [[(''id'', PInt 1), (''title'', PStr ''AB''), (''body'', PStr ''a b c''), (''userId'', PInt 1)],
      [(''id'', PInt 2), (''title'', PStr ''CDE''), (''body'', PStr ''d e''), (''userId'', PInt 1)],
      [(''id'', PInt 3), (''title'', PStr ''F''), (''body'', PStr ''g''), (''userId'', PInt 2)]]"

definition example_derived :: "derived list" where
  "example_derived =
     [\<lparr>d_id = 1, d_group = 1, d_title_length = 2, d_word_count = 3\<rparr>,
      \<lparr>d_id = 2, d_group = 1, d_title_length = 3, d_word_count = 2\<rparr>,
      \<lparr>d_id = 3, d_group = 2, d_title_length = 1, d_word_count = 1\<rparr>]"

definition example_frame :: "dataframe" where
  "example_frame =
     \<lparr>nrows = 3,
      columns =
        [(''id'', [PInt 1, PInt 2, PInt 3]),
         (''title'', [PStr ''AB'', PStr ''CDE'', PStr ''F'']),
         (''body'', [PStr ''a b c'', PStr ''d e'', PStr ''g'']),
         (''userId'', [PInt 1, PInt 1, PInt 2]),
         (''processed_at'', [PStr ''T'', PStr ''T'', PStr ''T'']),
         (''title_length'', [PInt 2, PInt 3, PInt 1]),
         (''body_word_count'', [PInt 3, PInt 2, PInt 1])]\<rparr>"


text \<open>The text of a float whose value is an integer of less than sixteen digits, as
  \<^verbatim>\<open>repr\<close> prints it; it stands for \<open>float_repr\<close> where no other float is printed.\<close>

definition integral_repr :: "rat \<Rightarrow> string" where
  "integral_repr x = show_int \<lfloor>x\<rfloor> @ ''.0''"

definition example_env :: env where
  "example_env = \<lparr>cronjob_name = ''dockerfile-data-processor'', execution_uuid = ''local-run'',
                   manual_trigger = False\<rparr>"

definition example_analysis :: pyobj where
  "example_analysis =
     ODict
       [(KStr ''execution_info'', ODict
           [(KStr ''cronjob_name'', OStr ''dockerfile-data-processor''),
            (KStr ''execution_uuid'', OStr ''local-run''),
            (KStr ''manual_trigger'', OBool False),
            (KStr ''processed_at'', OStr ''T'')]),
        (KStr ''data_summary'', ODict
           [(KStr ''total_records'', OInt 3),
            (KStr ''unique_users'', OInt 2),
            (KStr ''avg_title_length'', OFloat (F 2)),
            (KStr ''total_words'', OInt 6),
            (KStr ''min_title_length'', OInt 1),
            (KStr ''max_title_length'', OInt 3)]),
        (KStr ''user_breakdown'', ODict
           [(KInt 1, ODict [(KStr ''id'', OInt 2), (KStr ''title_length'', OFloat (F (5 / 2))),
                            (KStr ''body_word_count'', OInt 5)]),
            (KInt 2, ODict [(KStr ''id'', OInt 1), (KStr ''title_length'', OFloat (F 1)),
                            (KStr ''body_word_count'', OInt 1)])])]"

text \<open>Reading a decimal numeral back.\<close>

definition read_nat :: "string \<Rightarrow> nat" where
  "read_nat s = foldl (\<lambda>n c. 10 * n + (of_char c - 48)) 0 s"






section \<open>Properties of the data source\<close>

lemma show_nat_digit: "n < 10 \<Longrightarrow> show_nat n = [digit_char n]"
  by (simp add: show_nat.simps)

lemma generate_mock_data_unfold:
  "generate_mock_data = map mock_entry [0, 1, 2, 3, 4, 5, 6, 7, 8, 9]"
  by (simp add: generate_mock_data_def)

text \<open>
  C7.  The fallback generator is deterministic: it is a constant of ten records, whose
  \<^verbatim>\<open>id\<close> fields are 1 to 10 in order and whose \<^verbatim>\<open>userId\<close> fields follow the cycle
  1,2,3,1,2,3,1,2,3,1, that is \<open>(i mod 3) + 1\<close> for the loop index \<open>i\<close>; and every
  failure of the transport makes \<^verbatim>\<open>fetch_sample_data\<close> return exactly this list.
\<close>

theorem C7_fallback_deterministic:
  "length generate_mock_data = 10
   \<and> map (\<lambda>r. map_of r ''id'') generate_mock_data
       = map (\<lambda>i. Some (PInt (i + 1))) [0, 1, 2, 3, 4, 5, 6, 7, 8, 9]
   \<and> map (\<lambda>r. map_of r ''userId'') generate_mock_data
       = map (\<lambda>g. Some (PInt g)) [1, 2, 3, 1, 2, 3, 1, 2, 3, 1]
   \<and> map (\<lambda>r. map_of r ''userId'') generate_mock_data
       = map (\<lambda>i. Some (PInt ((i mod 3) + 1))) [0, 1, 2, 3, 4, 5, 6, 7, 8, 9]
   \<and> fetch_sample_data (Inl failure) = Inr (Records generate_mock_data)"
  by (simp add: generate_mock_data_unfold mock_entry_def fetch_sample_data_def fetch_try_def)




section \<open>Frames, grouping and the transform\<close>

lemma and_then_Inr_iff: "and_then m f = Inr y \<longleftrightarrow> (\<exists>x. m = Inr x \<and> f x = Inr y)"
  by (cases m) auto

lemma map_of_put_column:
  "map_of (put_column k v cols) k' = (if k' = k then Some v else map_of cols k')"
  by (induction cols) auto


lemma getitem_setitem:
  "getitem (setitem df k v) k' = (if k' = k then Inr v else getitem df k')"
  by (simp add: getitem_def setitem_def map_of_put_column)

lemma nrows_setitem: "nrows (setitem df k v) = nrows df"
  by (simp add: setitem_def)

lemma set_fast_unique: "set (fast_unique seen ks) = set seen \<union> set ks"
  by (induction ks arbitrary: seen) auto

lemma distinct_fast_unique: "distinct seen \<Longrightarrow> distinct (fast_unique seen ks)"
  by (induction ks arbitrary: seen) auto

lemma map_of_tabulate:
  "map_of (map (\<lambda>k. (k, f k)) ks) k = (if k \<in> set ks then Some (f k) else None)"
  by (induction ks) auto

lemma getitem_DataFrame:
  "getitem (DataFrame raw_data) k =
     (if k \<in> set (concat (map (map fst) raw_data))
      then Inr (map (\<lambda>r. cell r k) raw_data) else Inl (KeyError k))"
  by (simp add: getitem_def DataFrame_def map_of_tabulate set_fast_unique)

lemma nrows_DataFrame: "nrows (DataFrame raw_data) = length raw_data"
  by (simp add: DataFrame_def)

lemma str_accessor_Inr: "str_accessor s = Inr t \<Longrightarrow> t = s \<and> dtype_of s = Object"
  by (auto simp: str_accessor_def split: if_splits)

lemma process_data_frame:
  assumes "process_data now raw_data = Inr df"
  shows "df = setitem (setitem (setitem (DataFrame raw_data) ''processed_at''
                (replicate (length raw_data) (PStr now)))
              ''title_length'' (map (\<lambda>r. str_len1 (cell r ''title'')) raw_data))
            ''body_word_count'' (map (\<lambda>r. list_len1 (str_split1 (cell r ''body''))) raw_data)"
    and "\<exists>stats. groupby_agg df = Inr stats"
  using assms
  by (auto simp: process_data_def Let_def and_then_Inr_iff getitem_setitem nrows_setitem
        nrows_DataFrame getitem_DataFrame str_len_def str_split_len_def comp_def
        dest!: str_accessor_Inr split: if_splits)

lemma process_data_Inr:
  assumes "process_data now raw_data = Inr df"
  shows "nrows df = length raw_data"
    and "getitem df ''processed_at'' = Inr (map (\<lambda>r. PStr now) raw_data)"
    and "getitem df ''title_length'' = Inr (map (\<lambda>r. str_len1 (cell r ''title'')) raw_data)"
    and "getitem df ''body_word_count'' = Inr (map (\<lambda>r. list_len1 (str_split1 (cell r ''body''))) raw_data)"
    and "k \<notin> {''processed_at'', ''title_length'', ''body_word_count''} \<Longrightarrow>
         getitem df k = getitem (DataFrame raw_data) k"
  by (simp_all add: process_data_frame(1) [OF assms] getitem_setitem nrows_setitem nrows_DataFrame
        map_replicate_const)


lemma int_not_str: "is_int c \<Longrightarrow> \<not> is_str c"
  by (cases c) auto

lemma dtype_of_ints: "cells \<noteq> [] \<Longrightarrow> list_all is_int cells \<Longrightarrow> dtype_of cells = Int64"
  by (cases cells) (auto simp: dtype_of_def list_ex_iff list_all_iff dest: int_not_str)

lemma dtype_of_strs: "cells \<noteq> [] \<Longrightarrow> list_all is_str cells \<Longrightarrow> dtype_of cells = Object"
  by (cases cells) (auto simp: dtype_of_def list_ex_iff list_all_iff)

lemma dtype_of_PInt: "recs \<noteq> [] \<Longrightarrow> dtype_of (map (\<lambda>r. PInt (f r)) recs) = Int64"
  by (rule dtype_of_ints) (simp_all add: list_all_iff)

lemma numeric_PInt:
  "recs \<noteq> [] \<Longrightarrow> numeric (map (\<lambda>r. PInt (f r)) recs) = Inr (map (\<lambda>r. Some (f r)) recs)"
  by (simp add: numeric_def dtype_of_PInt comp_def)

lemma present_Some: "present (map (\<lambda>r. Some (f r)) rs) = map f rs"
  by (induction rs) (simp_all add: present_def List.map_filter_simps)

lemma uniques_PInt:
  "recs \<noteq> [] \<Longrightarrow> uniques (map (\<lambda>r. PInt (f r)) recs) = fast_unique [] (map (\<lambda>r. KInt (f r)) recs)"
proof -
  have "List.map_filter (key_of Int64) (map (\<lambda>r. PInt (f r)) rs) = map (\<lambda>r. KInt (f r)) rs" for rs
    by (induction rs) (simp_all add: List.map_filter_simps)
  then show "recs \<noteq> [] \<Longrightarrow> ?thesis" by (simp add: uniques_def dtype_of_PInt)
qed

lemma set_key_insort: "set (key_insort k ks) = insert k (set ks)"
  by (induction ks) auto

lemma distinct_key_insort: "distinct (key_insort k ks) \<longleftrightarrow> k \<notin> set ks \<and> distinct ks"
  by (induction ks) (auto simp: set_key_insort)

lemma length_key_insort: "length (key_insort k ks) = Suc (length ks)"
  by (induction ks) auto

lemma set_key_sort: "set (key_sort ks) = set ks"
  by (induction ks) (simp_all add: key_sort_def set_key_insort)

lemma distinct_key_sort: "distinct (key_sort ks) \<longleftrightarrow> distinct ks"
  by (induction ks) (simp_all add: key_sort_def distinct_key_insort set_key_sort [unfolded key_sort_def])

lemma length_key_sort: "length (key_sort ks) = length ks"
  by (induction ks) (simp_all add: key_sort_def length_key_insort)

lemma set_group_keys_PInt:
  "recs \<noteq> [] \<Longrightarrow> set (group_keys (map (\<lambda>r. PInt (f r)) recs)) = (\<lambda>r. KInt (f r)) ` set recs"
  by (simp add: group_keys_def set_key_sort uniques_PInt set_fast_unique)

lemma distinct_group_keys: "distinct (group_keys keycol)"
  by (simp add: group_keys_def distinct_key_sort uniques_def distinct_fast_unique)

lemma group_of_PInt:
  assumes "recs \<noteq> []"
  shows "group_of (map (\<lambda>r. PInt (f r)) recs) (KInt g) (map h recs)
         = map h (filter (\<lambda>r. f r = g) recs)"
proof -
  have "map snd (filter (\<lambda>(u, c). key_of Int64 u = Some (KInt g))
                  (zip (map (\<lambda>r. PInt (f r)) rs) (map h rs)))
        = map h (filter (\<lambda>r. f r = g) rs)" for rs
    by (induction rs) simp_all
  then show ?thesis using assms by (simp add: group_of_def dtype_of_PInt)
qed

lemma agg_count_PInt: "agg_count (map (\<lambda>r. PInt (f r)) rs) = int (length rs)"
  by (induction rs) (simp_all add: agg_count_def)

lemma count_partition:
  assumes "distinct ks" and "f ` set xs \<subseteq> set ks"
  shows "(\<Sum>k\<leftarrow>ks. length (filter (\<lambda>x. f x = k) xs)) = length xs"
  using assms(2)
proof (induction xs)
  case Nil
  then show ?case by simp
next
  case (Cons x xs)
  have one: "(\<Sum>k\<leftarrow>ks. if f x = k then 1 else 0) = (1::nat)"
    using Cons.prems assms(1) by (simp add: sum_list_distinct_conv_sum_set sum.delta')
  have "(\<Sum>k\<leftarrow>ks. length (filter (\<lambda>y. f y = k) (x # xs)))
        = (\<Sum>k\<leftarrow>ks. (if f x = k then 1 else 0) + length (filter (\<lambda>y. f y = k) xs))"
    by (rule arg_cong [where f = sum_list]) simp
  also have "\<dots> = (\<Sum>k\<leftarrow>ks. if f x = k then 1 else 0) + (\<Sum>k\<leftarrow>ks. length (filter (\<lambda>y. f y = k) xs))"
    by (simp add: sum_list_addf)
  finally show ?case using one Cons by simp
qed

lemma agg_row_holds:
  assumes "recs \<noteq> []"
  shows "agg_row (map (\<lambda>r. PInt (d_group r)) recs) (map (\<lambda>r. PInt (d_id r)) recs)
           (map (\<lambda>r. Some (d_title_length r)) recs) Int64
           (map (\<lambda>r. Some (d_word_count r)) recs) (KInt g) = row_of recs g"
  by (simp add: agg_row_def row_of_def group_of_PInt [OF assms] agg_count_PInt agg_sum_def
        present_Some)

lemma groupby_agg_holds:
  assumes "holds_records df recs" "recs \<noteq> []"
  shows "groupby_agg df =
           Inr (map (\<lambda>k. (k, agg_row (map (\<lambda>r. PInt (d_group r)) recs) (map (\<lambda>r. PInt (d_id r)) recs)
                                (map (\<lambda>r. Some (d_title_length r)) recs) Int64
                                (map (\<lambda>r. Some (d_word_count r)) recs) k))
                    (group_keys (map (\<lambda>r. PInt (d_group r)) recs)))"
  using assms
  by (simp add: groupby_agg_def holds_records_def numeric_PInt dtype_of_PInt)


lemma breakdown_holds:
  assumes "holds_records df recs" "recs \<noteq> []"
  shows "groupby_agg df =
           Inr (map (\<lambda>k. (k, case k of KInt g \<Rightarrow> row_of recs g | _ \<Rightarrow> ODict []))
                    (group_keys (map (\<lambda>r. PInt (d_group r)) recs)))"
proof -
  have "agg_row (map (\<lambda>r. PInt (d_group r)) recs) (map (\<lambda>r. PInt (d_id r)) recs)
           (map (\<lambda>r. Some (d_title_length r)) recs) Int64
           (map (\<lambda>r. Some (d_word_count r)) recs) k
        = (case k of KInt g \<Rightarrow> row_of recs g | _ \<Rightarrow> ODict [])"
    if "k \<in> set (group_keys (map (\<lambda>r. PInt (d_group r)) recs))" for k
    using that assms(2) by (auto simp: set_group_keys_PInt agg_row_holds)
  then show ?thesis
    by (simp add: groupby_agg_holds [OF assms])
qed

lemma sum_list_int: "(\<Sum>k\<leftarrow>ks. int (f k)) = int (\<Sum>k\<leftarrow>ks. f k)"
  by (induction ks) simp_all

lemma count_field_row_of:
  "count_field (row_of recs g) = int (length (filter (\<lambda>r. d_group r = g) recs))"
  by (simp add: count_field_def row_of_def)

text \<open>
  C2.  For a frame that holds a non-empty list of derived records, the aggregation is a
  partition by group: the counts of the groups add up to the number of records, and the
  keys of the aggregate, each occurring once, are exactly the group identifiers that
  occur in the records.
\<close>

theorem C2_partition:
  assumes "holds_records df recs" and "recs \<noteq> []"
  shows "\<exists>bd. groupby_agg df = Inr bd
           \<and> (\<Sum>(g, row)\<leftarrow>bd. count_field row) = int (length recs)
           \<and> set (map fst bd) = (\<lambda>r. KInt (d_group r)) ` set recs
           \<and> distinct (map fst bd)"
proof -
  let ?keys = "group_keys (map (\<lambda>r. PInt (d_group r)) recs)"
  let ?bd = "map (\<lambda>k. (k, case k of KInt g \<Rightarrow> row_of recs g | _ \<Rightarrow> ODict [])) ?keys"
  have keys: "set ?keys = (\<lambda>r. KInt (d_group r)) ` set recs"
    using assms(2) by (rule set_group_keys_PInt)
  have "(\<Sum>(g, row)\<leftarrow>?bd. count_field row)
        = (\<Sum>k\<leftarrow>?keys. int (length (filter (\<lambda>r. KInt (d_group r) = k) recs)))"
    unfolding map_map comp_def
    by (rule arg_cong [where f = sum_list], rule map_cong)
       (auto simp: keys count_field_row_of)
  also have "\<dots> = int (\<Sum>k\<leftarrow>?keys. length (filter (\<lambda>r. KInt (d_group r) = k) recs))"
    by (rule sum_list_int)
  also have "\<dots> = int (length recs)"
    using count_partition [of ?keys "\<lambda>r. KInt (d_group r)" recs]
    by (simp add: distinct_group_keys keys)
  finally have total: "(\<Sum>(g, row)\<leftarrow>?bd. count_field row) = int (length recs)" .
  have fst: "map fst ?bd = ?keys" by (simp add: comp_def)
  show ?thesis
  proof (intro exI conjI)
    show "groupby_agg df = Inr ?bd" by (rule breakdown_holds [OF assms])
    show "(\<Sum>(g, row)\<leftarrow>?bd. count_field row) = int (length recs)" by (rule total)
    show "set (map fst ?bd) = (\<lambda>r. KInt (d_group r)) ` set recs" unfolding fst by (rule keys)
    show "distinct (map fst ?bd)" unfolding fst by (rule distinct_group_keys)
  qed
qed

theorem C2_partition_witness:
  "holds_records example_frame example_derived \<and> example_derived \<noteq> []
   \<and> (\<exists>bd. groupby_agg example_frame = Inr bd
           \<and> (\<Sum>(g, row)\<leftarrow>bd. count_field row) = 3
           \<and> set (map fst bd) = {KInt 1, KInt 2})"
proof -
  have h: "holds_records example_frame example_derived"
    by (simp add: holds_records_def example_frame_def example_derived_def getitem_def)
  have n: "example_derived \<noteq> []" by (simp add: example_derived_def)
  from C2_partition [OF h n] obtain bd where "groupby_agg example_frame = Inr bd"
    "(\<Sum>(g, row)\<leftarrow>bd. count_field row) = int (length example_derived)"
    "set (map fst bd) = (\<lambda>r. KInt (d_group r)) ` set example_derived" by blast
  then have "groupby_agg example_frame = Inr bd
           \<and> (\<Sum>(g, row)\<leftarrow>bd. count_field row) = 3
           \<and> set (map fst bd) = {KInt 1, KInt 2}"
    by (simp add: example_derived_def)
  with h n show ?thesis by blast
qed


lemma split_ws_count:
  "length (split_ws s cur) =
     (if cur = [] then 0 else 1) +
     length (filter (\<lambda>i. \<not> is_space (s ! i) \<and> (if i = 0 then cur = [] else is_space (s ! (i - 1))))
                    [0 ..< length s])"
proof (induction s arbitrary: cur)
  case Nil
  then show ?case by simp
next
  case (Cons c cs)
  have upt: "[0 ..< length (c # cs)] = 0 # map Suc [0 ..< length cs]"
    by (simp add: upt_conv_Cons map_Suc_upt del: upt_Suc)
  have shift: "filter (\<lambda>i. \<not> is_space ((c # cs) ! i) \<and>
                   (if i = 0 then p else is_space ((c # cs) ! (i - 1))))
                 (map Suc [0 ..< length cs])
        = map Suc (filter (\<lambda>i. \<not> is_space (cs ! i) \<and>
                   (if i = 0 then is_space c else is_space (cs ! (i - 1)))) [0 ..< length cs])" for p
    by (simp add: filter_map comp_def nth_Cons')
  show ?case
    unfolding upt
    by (simp add: Cons.IH shift del: upt_Suc)
qed

lemma length_py_split: "length (py_split s) = whitespace_token_count s"
  unfolding py_split_def whitespace_token_count_def split_ws_count
  by (simp, rule arg_cong [where f = length], rule filter_cong) auto

section \<open>The transform\<close>

lemma process_data_empty: "process_data now [] = Inl (KeyError ''title'')"
  by (simp add: process_data_def DataFrame_def setitem_def getitem_def)

text \<open>
  C10.  On the empty list the transform raises: the frame built from an empty list has no
  column \<^verbatim>\<open>title\<close>, so line 87 raises \<^verbatim>\<open>KeyError\<close> and no frame is returned.  When
  the remote service answers with an empty array under a status that is not an error,
  the exception reaches the handler of \<^verbatim>\<open>run\<close>: the exit code is 1 and no file is
  written, the file system is left as it was.
\<close>

theorem C10_empty_input_fails:
  assumes "\<not> (400 \<le> status_code r \<and> status_code r < 600)" and "content r = JsonArray []"
  shows "process_data t_process [] = Inl (KeyError ''title'')
         \<and> run float_repr self (Inr r) t_process t_analysis fs = (1, fs)"
proof -
  from assms have "fetch_sample_data (Inr r) = Inr (Records [])"
    by (auto simp: fetch_sample_data_def fetch_try_def raise_for_status_def response_json_def)
  then show ?thesis
    by (simp add: process_data_empty run_def)
qed

theorem C10_empty_input_fails_witness:
  "process_data ''T'' [] = Inl (KeyError ''title'')
   \<and> run (\<lambda>x. []) \<lparr>cronjob_name = ''job'', execution_uuid = ''local-run'', manual_trigger = False\<rparr>
         (Inr \<lparr>status_code = 200, content = JsonArray []\<rparr>) ''T'' ''T'' Map.empty = (1, Map.empty)"
  using C10_empty_input_fails [of "\<lparr>status_code = 200, content = JsonArray []\<rparr>" "''T''"
      "\<lambda>x. []" "\<lparr>cronjob_name = ''job'', execution_uuid = ''local-run'', manual_trigger = False\<rparr>"
      "''T''" Map.empty]
  by simp

text \<open>
  C3 as stated fails on the empty list: the transform returns no frame of zero rows, it
  raises.
\<close>

theorem C3_counterexample: "process_data ''T'' [] = Inl (KeyError ''title'')"
  by (simp add: process_data_def DataFrame_def setitem_def getitem_def)

lemma cell_is_str_key: "is_str (cell r k) \<Longrightarrow> k \<in> fst ` set r"
  by (auto simp: cell_def split: option.splits dest: map_of_SomeD intro: rev_image_eqI)

lemma cell_is_int_key: "is_int (cell r k) \<Longrightarrow> k \<in> fst ` set r"
  by (auto simp: cell_def split: option.splits dest: map_of_SomeD intro: rev_image_eqI)

lemma derive_ok:
  assumes "raw_record_ok r"
  shows "cell r ''id'' = PInt (d_id (derive r))"
    and "cell r ''userId'' = PInt (d_group (derive r))"
    and "str_len1 (cell r ''title'') = PInt (d_title_length (derive r))"
    and "list_len1 (str_split1 (cell r ''body'')) = PInt (d_word_count (derive r))"
  using assms
  by (auto simp: raw_record_ok_def derive_def length_py_split
           elim!: is_int.elims is_str.elims)

lemma process_data_ok:
  assumes ne: "raw_data \<noteq> []" and ok: "list_all raw_record_ok raw_data"
  shows "\<exists>df. process_data now raw_data = Inr df \<and> holds_records df (map derive raw_data)"
proof -
  obtain r rest where raw: "raw_data = r # rest" using ne by (cases raw_data) auto
  have r: "raw_record_ok r" using ok raw by simp
  have keys: "k \<in> {''id'', ''title'', ''body'', ''userId''} \<Longrightarrow>
      getitem (DataFrame raw_data) k = Inr (map (\<lambda>r. cell r k) raw_data)" for k
    using r raw
    by (auto simp: getitem_DataFrame raw_record_ok_def dest: cell_is_str_key cell_is_int_key)
  have strs: "list_all is_str (map (\<lambda>r. cell r ''title'') raw_data)"
             "list_all is_str (map (\<lambda>r. cell r ''body'') raw_data)"
    using ok by (auto simp: list_all_iff raw_record_ok_def)
  define df where "df = setitem (setitem (setitem (DataFrame raw_data) ''processed_at''
                (replicate (length raw_data) (PStr now)))
              ''title_length'' (map (\<lambda>r. str_len1 (cell r ''title'')) raw_data))
            ''body_word_count'' (map (\<lambda>r. list_len1 (str_split1 (cell r ''body''))) raw_data)"
  have d: "holds_records df (map derive raw_data)"
    using ok
    by (auto simp: holds_records_def df_def getitem_setitem nrows_setitem
          nrows_DataFrame keys list_all_iff derive_ok)
  then obtain stats where "groupby_agg df = Inr stats"
    using ne by (auto dest: breakdown_holds)
  then have "process_data now raw_data = Inr df"
    using ne strs
    by (simp add: process_data_def Let_def getitem_setitem nrows_setitem nrows_DataFrame keys
          str_accessor_def dtype_of_strs str_len_def str_split_len_def comp_def df_def)
  with d show ?thesis by blast
qed

text \<open>
  C3, amended.  The transform returns on every non-empty list of records with integer
  \<^verbatim>\<open>id\<close> and \<^verbatim>\<open>userId\<close> and string \<^verbatim>\<open>title\<close> and \<^verbatim>\<open>body\<close>, and the frame then holds
  the derived records of the inputs, in order.  Whenever it returns, on any input, it is
  an order-preserving map: the frame has one row per input record, and every column is
  the list over the inputs, in their order, of the record's own field, of the
  timestamp, or of the value computed from the record's own title or body.
\<close>

theorem C3_order_preserving_map:
  "(raw_data \<noteq> [] \<and> list_all raw_record_ok raw_data \<longrightarrow>
      (\<exists>df. process_data now raw_data = Inr df \<and> holds_records df (map derive raw_data)))
   \<and> (\<forall>df. process_data now raw_data = Inr df \<longrightarrow>
         nrows df = length raw_data
         \<and> getitem df ''processed_at'' = Inr (map (\<lambda>r. PStr now) raw_data)
         \<and> getitem df ''title_length'' = Inr (map (\<lambda>r. str_len1 (cell r ''title'')) raw_data)
         \<and> getitem df ''body_word_count''
             = Inr (map (\<lambda>r. list_len1 (str_split1 (cell r ''body''))) raw_data)
         \<and> (\<forall>k \<in> set (concat (map (map fst) raw_data))
                   - {''processed_at'', ''title_length'', ''body_word_count''}.
               getitem df k = Inr (map (\<lambda>r. cell r k) raw_data)))"
proof (intro conjI impI allI)
  assume "raw_data \<noteq> [] \<and> list_all raw_record_ok raw_data"
  then show "\<exists>df. process_data now raw_data = Inr df \<and> holds_records df (map derive raw_data)"
    by (simp add: process_data_ok)
next
  fix df assume ok: "process_data now raw_data = Inr df"
  show "nrows df = length raw_data" by (rule process_data_Inr(1) [OF ok])
  show "getitem df ''processed_at'' = Inr (map (\<lambda>r. PStr now) raw_data)"
    by (rule process_data_Inr(2) [OF ok])
  show "getitem df ''title_length'' = Inr (map (\<lambda>r. str_len1 (cell r ''title'')) raw_data)"
    by (rule process_data_Inr(3) [OF ok])
  show "getitem df ''body_word_count''
             = Inr (map (\<lambda>r. list_len1 (str_split1 (cell r ''body''))) raw_data)"
    by (rule process_data_Inr(4) [OF ok])
  show "\<forall>k \<in> set (concat (map (map fst) raw_data))
                   - {''processed_at'', ''title_length'', ''body_word_count''}.
               getitem df k = Inr (map (\<lambda>r. cell r k) raw_data)"
    using process_data_Inr(5) [OF ok] by (auto simp: getitem_DataFrame)
qed

lemma holds_example_derive: "map derive example_records = example_derived"
  by (simp add: example_records_def example_derived_def derive_def cell_def
        whitespace_token_count_def is_space_def upt_rec [of _ "Suc _"] upt_rec [of _ "numeral _"])


theorem C3_order_preserving_map_witness:
  "example_records \<noteq> [] \<and> list_all raw_record_ok example_records
   \<and> (\<exists>df. process_data ''T'' example_records = Inr df \<and> holds_records df example_derived)"
proof -
  have h: "example_records \<noteq> [] \<and> list_all raw_record_ok example_records"
    by (simp add: example_records_def raw_record_ok_def cell_def)
  with C3_order_preserving_map [of example_records "''T''"] show ?thesis
    by (simp add: holds_example_derive)
qed







section \<open>The aggregate and the report\<close>

text \<open>The rule of \<^verbatim>\<open>round(2)\<close> at work on a mean that has no exact \<^verbatim>\<open>float64\<close>: the
  mean \<open>203 / 200\<close> becomes \<open>1.01\<close>, since its float times 100 lies below \<open>101.5\<close>.\<close>

lemma np_round2_of_scaled_tie: "np_round2 (F (fl (203 / 200))) = F (fl (101 / 100))"
  by code_simp









lemma series_PInt:
  assumes "recs \<noteq> []"
  shows "series_mean (map (\<lambda>r. PInt (f r)) recs) = Inr (fmean (map (\<lambda>r. Some (f r)) recs))"
    and "series_sum (map (\<lambda>r. PInt (f r)) recs) = Inr (NpInt (\<Sum>r\<leftarrow>recs. f r))"
    and "series_min (map (\<lambda>r. PInt (f r)) recs) = Inr (NpInt (list_min (map f recs)))"
    and "series_max (map (\<lambda>r. PInt (f r)) recs) = Inr (NpInt (list_max (map f recs)))"
  using assms
  by (simp_all add: series_mean_def series_sum_def series_min_def series_max_def numeric_PInt
        dtype_of_PInt extremum_def present_Some)

lemma fmean_Some:
  "recs \<noteq> [] \<Longrightarrow>
   fmean (map (\<lambda>r. Some (f r)) recs)
     = F (fl (to_float (\<Sum>r\<leftarrow>recs. f r) / of_nat (length recs)))"
  by (simp add: fmean_def present_Some)

lemma length_group_keys: "length (group_keys keycol) = length (uniques keycol)"
  by (simp add: group_keys_def length_key_sort)





section \<open>The persisted report\<close>

lemma digit_cases: "d < 10 \<Longrightarrow> d \<in> {0, 1, 2, 3, 4, 5, 6, 7, 8, 9::nat}"
  by auto

lemma digit_char_val: "d < 10 \<Longrightarrow> (of_char (digit_char d) :: nat) - 48 = d"
  by (drule digit_cases) (auto simp: digit_char_def)

lemma digit_char_not_minus: "d < 10 \<Longrightarrow> digit_char d \<noteq> CHR ''-''"
  by (drule digit_cases) (auto simp: digit_char_def)

lemma read_show_nat: "read_nat (show_nat n) = n"
proof (induction n rule: show_nat.induct)
  case (1 n)
  show ?case
  proof (cases "n < 10")
    case True
    then show ?thesis
      by (simp add: show_nat.simps [of n] read_nat_def digit_char_val)
  next
    case False
    with 1 have "read_nat (show_nat (n div 10)) = n div 10" by simp
    with False show ?thesis
      by (simp add: show_nat.simps [of n] read_nat_def digit_char_val)
  qed
qed

lemma show_nat_no_minus: "CHR ''-'' \<notin> set (show_nat n)"
proof (induction n rule: show_nat.induct)
  case (1 n)
  have "digit_char (n mod 10) \<noteq> CHR ''-''" by (rule digit_char_not_minus) simp
  with 1 digit_char_not_minus [of n] show ?case
    by (cases "n < 10") (auto simp: show_nat.simps [of n])
qed

lemma show_nat_inj: "show_nat m = show_nat n \<Longrightarrow> m = n"
  by (metis read_show_nat)

lemma show_int_inj: "show_int i = show_int j \<Longrightarrow> i = j"
proof -
  assume eq: "show_int i = show_int j"
  have neg: "CHR ''-'' # show_nat a \<noteq> show_nat b" for a b
    using show_nat_no_minus [of b] by (metis list.set_intros(1))
  show "i = j"
  proof (cases "i < 0"; cases "j < 0")
    assume "i < 0" "j < 0"
    with eq have "nat (- i) = nat (- j)" by (auto simp: show_int_def dest: show_nat_inj)
    with \<open>i < 0\<close> \<open>j < 0\<close> show ?thesis by simp
  next
    assume "i < 0" "\<not> j < 0"
    with eq neg show ?thesis by (simp add: show_int_def)
  next
    assume "\<not> i < 0" "j < 0"
    with eq neg [of "nat (- j)" "nat i"] show ?thesis by (simp add: show_int_def)
  next
    assume "\<not> i < 0" "\<not> j < 0"
    with eq have "nat i = nat j" by (auto simp: show_int_def dest: show_nat_inj)
    with \<open>\<not> i < 0\<close> \<open>\<not> j < 0\<close> show ?thesis by simp
  qed
qed

lemma dict_put_fresh: "k \<notin> fst ` set d \<Longrightarrow> dict_put k v d = d @ [(k, v)]"
  by (induction d) auto

lemma fold_dict_put:
  assumes "distinct (map fst ms)" and "\<forall>m \<in> set ms. KStr (fst m) \<notin> fst ` set acc"
  shows "fold (\<lambda>m d. dict_put (KStr (fst m)) (g (snd m)) d) ms acc
         = acc @ map (\<lambda>m. (KStr (fst m), g (snd m))) ms"
  using assms
proof (induction ms arbitrary: acc)
  case Nil
  then show ?case by simp
next
  case (Cons m ms)
  have fresh: "dict_put (KStr (fst m)) (g (snd m)) acc = acc @ [(KStr (fst m), g (snd m))]"
    using Cons.prems(2) by (simp add: dict_put_fresh)
  have "\<forall>m' \<in> set ms. KStr (fst m') \<notin> fst ` set (acc @ [(KStr (fst m), g (snd m))])"
    using Cons.prems by (auto simp: image_iff)
  with Cons.IH [of "acc @ [(KStr (fst m), g (snd m))]"] Cons.prems(1) fresh
  show ?case by simp
qed

lemma row_roundtrip: "json_load (json_dump float_repr (row_of recs g)) = row_of recs g"
  by (simp add: row_of_def)


lemma perform_analysis_holds:
  assumes "holds_records df recs" and "recs \<noteq> []"
  shows "perform_analysis self now df =
             Inr (ODict
               [(KStr ''execution_info'', ODict
                   [(KStr ''cronjob_name'', OStr (cronjob_name self)),
                    (KStr ''execution_uuid'', OStr (execution_uuid self)),
                    (KStr ''manual_trigger'', OBool (manual_trigger self)),
                    (KStr ''processed_at'', OStr now)]),
                (KStr ''data_summary'', ODict
                   [(KStr ''total_records'', OInt (int (length recs))),
                    (KStr ''unique_users'',
                       OInt (int (length (group_keys (map (\<lambda>r. PInt (d_group r)) recs))))),
                    (KStr ''avg_title_length'',
                       OFloat (F (fl (to_float (\<Sum>r\<leftarrow>recs. d_title_length r)
                                       / of_nat (length recs))))),
                    (KStr ''total_words'', OInt (\<Sum>r\<leftarrow>recs. d_word_count r)),
                    (KStr ''min_title_length'', OInt (list_min (map d_title_length recs))),
                    (KStr ''max_title_length'', OInt (list_max (map d_title_length recs)))]),
                (KStr ''user_breakdown'', ODict
                   (map (\<lambda>k. (k, case k of KInt g \<Rightarrow> row_of recs g | _ \<Rightarrow> ODict []))
                        (group_keys (map (\<lambda>r. PInt (d_group r)) recs))))])"
proof -
  have n: "nunique (map (\<lambda>r. PInt (d_group r)) recs)
           = int (length (group_keys (map (\<lambda>r. PInt (d_group r)) recs)))"
    by (simp add: nunique_def length_group_keys)
  have cols: "getitem df ''userId'' = Inr (map (\<lambda>r. PInt (d_group r)) recs)"
    "getitem df ''title_length'' = Inr (map (\<lambda>r. PInt (d_title_length r)) recs)"
    "getitem df ''body_word_count'' = Inr (map (\<lambda>r. PInt (d_word_count r)) recs)"
    "nrows df = length recs"
    using assms(1) by (simp_all add: holds_records_def)
  show ?thesis
    unfolding perform_analysis_def cols
    by (simp add: series_PInt [OF assms(2)] breakdown_holds [OF assms] n fmean_Some [OF assms(2)])
qed

lemma breakdown_roundtrip:
  assumes "distinct keys" and "\<forall>k \<in> set keys. \<exists>g. k = KInt g"
  shows "json_load (json_dump float_repr
           (ODict (map (\<lambda>k. (k, case k of KInt g \<Rightarrow> row_of recs g | _ \<Rightarrow> ODict [])) keys)))
         = ODict (map (\<lambda>k. (KStr (key_text float_repr k),
                             case k of KInt g \<Rightarrow> row_of recs g | _ \<Rightarrow> ODict [])) keys)"
proof -
  let ?ms = "map (\<lambda>k. (key_text float_repr k,
                 json_dump float_repr (case k of KInt g \<Rightarrow> row_of recs g | _ \<Rightarrow> ODict []))) keys"
  have inj: "inj_on (key_text float_repr) (set keys)"
  proof (rule inj_onI)
    fix x y assume "x \<in> set keys" "y \<in> set keys" "key_text float_repr x = key_text float_repr y"
    moreover from this assms(2) obtain g h where "x = KInt g" "y = KInt h" by blast
    ultimately show "x = y" by (simp add: show_int_inj)
  qed
  have d: "distinct (map fst ?ms)"
    using assms(1) inj by (simp add: comp_def distinct_map)
  have "fold (\<lambda>m d. dict_put (KStr (fst m)) (json_load (snd m)) d) ?ms []
        = [] @ map (\<lambda>m. (KStr (fst m), json_load (snd m))) ?ms"
    by (rule fold_dict_put [OF d]) simp
  also have "\<dots> = map (\<lambda>k. (KStr (key_text float_repr k),
                             case k of KInt g \<Rightarrow> row_of recs g | _ \<Rightarrow> ODict [])) keys"
    using assms(2) by (auto simp: comp_def row_roundtrip)
  finally show ?thesis by (simp add: comp_def)
qed

text \<open>
  C8, amended.  For a frame that holds a non-empty list of derived records, the report
  is written to the JSON path as the document of \<^verbatim>\<open>json.dump\<close>, and reading that
  document back yields the same execution info and the same summary values, and a
  breakdown with the same rows in the same order, each keyed by the decimal text of its
  group identifier instead of the integer.
\<close>

theorem C8_report_roundtrip:
  assumes "holds_records df recs" and "recs \<noteq> []"
  shows "\<exists>a bd. perform_analysis self now df = Inr a
           \<and> save_results float_repr self df a fs (json_path self)
               = Some (JsonFile (json_dump float_repr a))
           \<and> dict_get a (KStr ''user_breakdown'') = Some (ODict bd)
           \<and> dict_get (json_load (json_dump float_repr a)) (KStr ''execution_info'')
               = dict_get a (KStr ''execution_info'')
           \<and> dict_get (json_load (json_dump float_repr a)) (KStr ''data_summary'')
               = dict_get a (KStr ''data_summary'')
           \<and> dict_get (json_load (json_dump float_repr a)) (KStr ''user_breakdown'')
               = Some (ODict (map (\<lambda>(k, row). (case k of KInt g \<Rightarrow> KStr (show_int g) | _ \<Rightarrow> k, row)) bd))
           \<and> (\<forall>(k, row) \<in> set bd. \<exists>g. k = KInt g)"
proof -
  let ?keys = "group_keys (map (\<lambda>r. PInt (d_group r)) recs)"
  let ?bd = "map (\<lambda>k. (k, case k of KInt g \<Rightarrow> row_of recs g | _ \<Rightarrow> ODict [])) ?keys"
  have keys: "\<forall>k \<in> set ?keys. \<exists>g. k = KInt g"
    using assms(2) by (auto simp: set_group_keys_PInt)
  have rt: "json_load (json_dump float_repr (ODict ?bd))
         = ODict (map (\<lambda>k. (KStr (key_text float_repr k),
                             case k of KInt g \<Rightarrow> row_of recs g | _ \<Rightarrow> ODict [])) ?keys)"
    by (rule breakdown_roundtrip [OF distinct_group_keys keys])
  have m: "map (\<lambda>k. (KStr (key_text float_repr k),
                             case k of KInt g \<Rightarrow> row_of recs g | _ \<Rightarrow> ODict [])) ?keys
           = map (\<lambda>(k, row). (case k of KInt g \<Rightarrow> KStr (show_int g) | _ \<Rightarrow> k, row)) ?bd"
    using keys by auto
  define a where "a = ODict
               [(KStr ''execution_info'', ODict
                   [(KStr ''cronjob_name'', OStr (cronjob_name self)),
                    (KStr ''execution_uuid'', OStr (execution_uuid self)),
                    (KStr ''manual_trigger'', OBool (manual_trigger self)),
                    (KStr ''processed_at'', OStr now)]),
                (KStr ''data_summary'', ODict
                   [(KStr ''total_records'', OInt (int (length recs))),
                    (KStr ''unique_users'', OInt (int (length ?keys))),
                    (KStr ''avg_title_length'',
                       OFloat (F (fl (to_float (\<Sum>r\<leftarrow>recs. d_title_length r)
                                       / of_nat (length recs))))),
                    (KStr ''total_words'', OInt (\<Sum>r\<leftarrow>recs. d_word_count r)),
                    (KStr ''min_title_length'', OInt (list_min (map d_title_length recs))),
                    (KStr ''max_title_length'', OInt (list_max (map d_title_length recs)))]),
                (KStr ''user_breakdown'', ODict ?bd)]"
  have pa: "perform_analysis self now df = Inr a"
    unfolding a_def by (rule perform_analysis_holds [OF assms])
  have loaded: "json_load (json_dump float_repr a) = ODict
               [(KStr ''execution_info'', ODict
                   [(KStr ''cronjob_name'', OStr (cronjob_name self)),
                    (KStr ''execution_uuid'', OStr (execution_uuid self)),
                    (KStr ''manual_trigger'', OBool (manual_trigger self)),
                    (KStr ''processed_at'', OStr now)]),
                (KStr ''data_summary'', ODict
                   [(KStr ''total_records'', OInt (int (length recs))),
                    (KStr ''unique_users'', OInt (int (length ?keys))),
                    (KStr ''avg_title_length'',
                       OFloat (F (fl (to_float (\<Sum>r\<leftarrow>recs. d_title_length r)
                                       / of_nat (length recs))))),
                    (KStr ''total_words'', OInt (\<Sum>r\<leftarrow>recs. d_word_count r)),
                    (KStr ''min_title_length'', OInt (list_min (map d_title_length recs))),
                    (KStr ''max_title_length'', OInt (list_max (map d_title_length recs)))]),
                (KStr ''user_breakdown'', json_load (json_dump float_repr (ODict ?bd)))]"
    unfolding a_def by (simp del: json_dump.simps(5) json_load.simps(5)
        add: json_dump.simps(5) [of _ "[_, _, _]"] json_dump.simps(5) [of _ "[_, _, _, _]"]
             json_dump.simps(5) [of _ "[_, _, _, _, _, _]"]
             json_load.simps(5) [of "[_, _, _]"] json_load.simps(5) [of "[_, _, _, _]"]
             json_load.simps(5) [of "[_, _, _, _, _, _]"])
  have "save_results float_repr self df a fs (json_path self)
               = Some (JsonFile (json_dump float_repr a))"
    by (simp add: save_results_def)
  moreover have "dict_get a (KStr ''user_breakdown'') = Some (ODict ?bd)"
    by (simp add: a_def)
  moreover have "dict_get (json_load (json_dump float_repr a)) (KStr ''execution_info'')
               = dict_get a (KStr ''execution_info'')"
    unfolding loaded by (simp add: a_def)
  moreover have "dict_get (json_load (json_dump float_repr a)) (KStr ''data_summary'')
               = dict_get a (KStr ''data_summary'')"
    unfolding loaded by (simp add: a_def)
  moreover have "dict_get (json_load (json_dump float_repr a)) (KStr ''user_breakdown'')
               = Some (ODict (map (\<lambda>(k, row). (case k of KInt g \<Rightarrow> KStr (show_int g) | _ \<Rightarrow> k, row)) ?bd))"
    unfolding loaded rt m by simp
  moreover have "\<forall>(k, row) \<in> set ?bd. \<exists>g. k = KInt g"
    using keys by auto
  ultimately show ?thesis using pa by blast
qed


text \<open>
  C8 as stated fails on the keys of the breakdown.  In memory the breakdown of the
  example is keyed by the integers 1 and 2; the document read back is keyed by the
  strings \<^verbatim>\<open>"1"\<close> and \<^verbatim>\<open>"2"\<close>, so the report read back differs from the report.
\<close>

theorem C8_counterexample:
  "perform_analysis example_env ''T'' example_frame = Inr example_analysis
   \<and> dict_get example_analysis (KStr ''user_breakdown'') =
       Some (ODict
         [(KInt 1, ODict [(KStr ''id'', OInt 2), (KStr ''title_length'', OFloat (F (5 / 2))),
                          (KStr ''body_word_count'', OInt 5)]),
          (KInt 2, ODict [(KStr ''id'', OInt 1), (KStr ''title_length'', OFloat (F 1)),
                          (KStr ''body_word_count'', OInt 1)])])
   \<and> dict_get (json_load (json_dump integral_repr example_analysis)) (KStr ''user_breakdown'') =
       Some (ODict
         [(KStr ''1'', ODict [(KStr ''id'', OInt 2), (KStr ''title_length'', OFloat (F (5 / 2))),
                              (KStr ''body_word_count'', OInt 5)]),
          (KStr ''2'', ODict [(KStr ''id'', OInt 1), (KStr ''title_length'', OFloat (F 1)),
                              (KStr ''body_word_count'', OInt 1)])])
   \<and> json_load (json_dump integral_repr example_analysis) \<noteq> example_analysis"
  by code_simp

theorem C8_report_roundtrip_witness:
  "holds_records example_frame example_derived \<and> example_derived \<noteq> []
   \<and> (\<exists>a. perform_analysis example_env ''T'' example_frame = Inr a
         \<and> dict_get (json_load (json_dump integral_repr a)) (KStr ''data_summary'')
             = dict_get a (KStr ''data_summary'')
         \<and> dict_get (json_load (json_dump integral_repr a)) (KStr ''user_breakdown'') =
             Some (ODict
               [(KStr ''1'', ODict [(KStr ''id'', OInt 2), (KStr ''title_length'', OFloat (F (5 / 2))),
                                    (KStr ''body_word_count'', OInt 5)]),
                (KStr ''2'', ODict [(KStr ''id'', OInt 1), (KStr ''title_length'', OFloat (F 1)),
                                    (KStr ''body_word_count'', OInt 1)])]))"
proof -
  have h: "holds_records example_frame example_derived"
    by (simp add: holds_records_def example_frame_def example_derived_def getitem_def)
  have n: "example_derived \<noteq> []" by (simp add: example_derived_def)
  have ex: "perform_analysis example_env ''T'' example_frame = Inr example_analysis"
    by code_simp
  from C8_report_roundtrip [OF h n, of example_env "''T''" integral_repr Map.empty]
  obtain a bd where a: "perform_analysis example_env ''T'' example_frame = Inr a"
    and bd: "dict_get a (KStr ''user_breakdown'') = Some (ODict bd)"
    and s: "dict_get (json_load (json_dump integral_repr a)) (KStr ''data_summary'')
             = dict_get a (KStr ''data_summary'')"
    and b: "dict_get (json_load (json_dump integral_repr a)) (KStr ''user_breakdown'')
             = Some (ODict (map (\<lambda>(k, row). (case k of KInt g \<Rightarrow> KStr (show_int g) | _ \<Rightarrow> k, row)) bd))"
    by blast
  from a ex have "a = example_analysis" by simp
  with bd have "bd = [(KInt 1, ODict [(KStr ''id'', OInt 2), (KStr ''title_length'', OFloat (F (5 / 2))),
                          (KStr ''body_word_count'', OInt 5)]),
          (KInt 2, ODict [(KStr ''id'', OInt 1), (KStr ''title_length'', OFloat (F 1)),
                          (KStr ''body_word_count'', OInt 1)])]"
    by (simp add: example_analysis_def)
  with b have "dict_get (json_load (json_dump integral_repr a)) (KStr ''user_breakdown'') =
             Some (ODict
               [(KStr ''1'', ODict [(KStr ''id'', OInt 2), (KStr ''title_length'', OFloat (F (5 / 2))),
                                    (KStr ''body_word_count'', OInt 5)]),
                (KStr ''2'', ODict [(KStr ''id'', OInt 1), (KStr ''title_length'', OFloat (F 1)),
                                    (KStr ''body_word_count'', OInt 1)])])"
    by (simp add: show_int_def show_nat_digit digit_char_def)
  with h n a s show ?thesis by blast
qed

section \<open>The tabular file\<close>





















end
